theory Spec2Isabelle
  imports Complex_Main
begin

section \<open>Data model of the walkthrough (src/lib/TutorialProvider.tsx)\<close>

text \<open>
  The TypeScript enums \<^verbatim>\<open>VerticalPosition\<close> and \<^verbatim>\<open>HorizontalPosition\<close> (lines 6-19).
  An optional field of that type is an \<open>option\<close>: \<open>None\<close> is JavaScript's \<^verbatim>\<open>undefined\<close>.
\<close>

datatype VerticalPosition = Top | Bottom | Middle

datatype HorizontalPosition = Left | Right | Center

text \<open>
  A CSS property value is a number (\<^verbatim>\<open>top: 0\<close>), a string literal
  (\<^verbatim>\<open>position: 'absolute'\<close>) or the template string \<^verbatim>\<open>`${x}px`\<close> of a number, kept
  symbolic as \<open>CssPx x\<close>. JavaScript numbers are modelled as reals: rounding, \<^verbatim>\<open>NaN\<close>
  and the infinities of IEEE doubles are outside the model.
  A \<^verbatim>\<open>CSSProperties\<close> object is a finite map from property names to values; the object
  spread \<^verbatim>\<open>{...a, ...b}\<close> is \<open>a ++ b\<close> (the right operand wins).
\<close>

datatype CSSValue = CssNum real | CssStr string | CssPx real

type_synonym CSSProperties = "string \<rightharpoonup> CSSValue"

text \<open>Interface \<^verbatim>\<open>Step\<close> (lines 24-32). The field \<^verbatim>\<open>text\<close> is written \<open>text'\<close>.\<close>

record Step =
  elementId :: string
  text' :: string
  verticalPosition :: "VerticalPosition option"
  horizontalPosition :: "HorizontalPosition option"
  verticalOffset :: "real option"
  horizontalOffset :: "real option"
  tooltipStyle :: "CSSProperties option"

text \<open>\<^verbatim>\<open>defaultTooltipStyle\<close> (lines 57-70).\<close>

definition defaultTooltipStyle :: CSSProperties where
  "defaultTooltipStyle = map_of
     [(''transition'', CssStr ''opacity 1s''),
      (''position'', CssStr ''absolute''),
      (''maxWidth'', CssStr ''300px''),
      (''top'', CssNum 0),
      (''left'', CssNum 0),
      (''backgroundColor'', CssStr ''#212121''),
      (''fontSize'', CssStr ''0.8rem''),
      (''color'', CssStr ''#f5f5f5''),
      (''padding'', CssStr ''0.5rem''),
      (''zIndex'', CssNum 1001),
      (''boxShadow'', CssStr ''0px 4px 8px rgba(0, 0, 0, 0.8)''),
      (''borderRadius'', CssStr ''2px'')]"

text \<open>\<^verbatim>\<open>defaultDimStyle\<close> and \<^verbatim>\<open>defaultBodyDimStyle\<close> (lines 81-95).\<close>

definition defaultDimStyle :: CSSProperties where
  "defaultDimStyle = map_of
     [(''backgroundColor'', CssStr ''rgba(0, 0, 0, 0.3)''),
      (''zIndex'', CssNum 1000)]"

definition fullScreenFixed :: CSSProperties where
  "fullScreenFixed = map_of
     [(''position'', CssStr ''fixed''),
      (''margin'', CssNum 0),
      (''padding'', CssNum 0),
      (''top'', CssNum 0),
      (''left'', CssNum 0),
      (''right'', CssNum 0),
      (''bottom'', CssNum 0)]"

definition defaultBodyDimStyle :: CSSProperties where
  "defaultBodyDimStyle = defaultDimStyle ++ fullScreenFixed"

section \<open>JavaScript primitives used by the component\<close>

text \<open>
  Reading \<^verbatim>\<open>xs[i]\<close> on a JavaScript array never throws: outside \<open>0 .. length - 1\<close>
  (also at \<open>-1\<close>) it yields \<^verbatim>\<open>undefined\<close>, here \<open>None\<close>.
\<close>

definition index :: "'a list \<Rightarrow> int \<Rightarrow> 'a option" where
  "index xs i = (if 0 \<le> i \<and> i < int (length xs) then Some (xs ! nat i) else None)"

text \<open>Spreading \<^verbatim>\<open>undefined\<close> into an object literal adds no property.\<close>

definition spread :: "CSSProperties option \<Rightarrow> CSSProperties" where
  "spread obj = (case obj of None \<Rightarrow> Map.empty | Some m \<Rightarrow> m)"

text \<open>\<^verbatim>\<open>a || b\<close> on numbers: \<open>a\<close> when it is truthy (not zero), else \<open>b\<close>.\<close>

definition orElse :: "real \<Rightarrow> real \<Rightarrow> real" where
  "orElse a b = (if a \<noteq> 0 then a else b)"

text \<open>
  Reading a property of \<^verbatim>\<open>undefined\<close> (\<^verbatim>\<open>step.elementId\<close>, \<^verbatim>\<open>steps[activeStep].text\<close>)
  throws a \<^verbatim>\<open>TypeError\<close>; it is the only exception the component can raise.
\<close>

datatype Error = TypeError

section \<open>The host environment\<close>

text \<open>
  What the component reads of the target element: \<^verbatim>\<open>getBoundingClientRect()\<close>'s
  \<^verbatim>\<open>top\<close> and \<^verbatim>\<open>left\<close>, and \<^verbatim>\<open>offsetWidth\<close>, \<^verbatim>\<open>offsetHeight\<close> (lines 122-154).
\<close>

record Element =
  rectTop :: real
  rectLeft :: real
  offsetWidth :: real
  offsetHeight :: real

text \<open>What it reads of \<^verbatim>\<open>window\<close> and \<^verbatim>\<open>document\<close> (lines 123-124, 169-170).\<close>

record Window =
  innerWidth :: real
  innerHeight :: real
  pageXOffset :: real
  pageYOffset :: real
  documentElementScrollLeft :: real
  documentElementScrollTop :: real
  bodyScrollLeft :: real
  bodyScrollTop :: real

text \<open>\<^verbatim>\<open>document.getElementById\<close>: the element with that id, or \<^verbatim>\<open>null\<close>.\<close>

type_synonym Document = "string \<rightharpoonup> Element"

definition getElementById :: "Document \<Rightarrow> string \<Rightarrow> Element option" where
  "getElementById doc ident = doc ident"

section \<open>Component state\<close>

text \<open>
  The two \<^verbatim>\<open>useState\<close> cells of \<^verbatim>\<open>TutorialProvider\<close> (lines 110-115), and whether the
  component's \<^verbatim>\<open>resize\<close> listener is registered on \<^verbatim>\<open>window\<close> (lines 182, 202, 204).
  Handlers are taken to run on the state of the latest render, so the \<^verbatim>\<open>activeStep\<close>
  a callback closes over and the \<^verbatim>\<open>prevStep\<close> its updater receives are the same value.
\<close>

record ProviderState =
  activeStep :: int
  curTooltipStyle :: CSSProperties
  resizeListener :: bool

text \<open>Lines 110-115; \<^verbatim>\<open>showTooltip\<close> is an optional boolean prop.\<close>

definition initialState :: "Step list \<Rightarrow> bool option \<Rightarrow> ProviderState" where
  "initialState steps showTooltip =
     (let activeStep0 = (if showTooltip = Some True then 0 else - 1);
          step = index steps activeStep0
      in \<lparr>activeStep = activeStep0,
          curTooltipStyle = defaultTooltipStyle ++ spread (Option.bind step tooltipStyle),
          resizeListener = False\<rparr>)"

section \<open>Placement (the body of \<^verbatim>\<open>updateTooltipPosition\<close>, lines 123-170)\<close>

definition scrollTop :: "Window \<Rightarrow> real" where
  "scrollTop win =
     orElse (orElse (orElse (pageYOffset win) (documentElementScrollTop win)) (bodyScrollTop win)) 0"

definition scrollLeft :: "Window \<Rightarrow> real" where
  "scrollLeft win =
     orElse (orElse (orElse (pageXOffset win) (documentElementScrollLeft win)) (bodyScrollLeft win)) 0"

text \<open>The assumed tooltip width (line 160).\<close>

definition tooltipWidth :: real where
  "tooltipWidth = 300"

text \<open>The value of \<^verbatim>\<open>top\<close> after line 142, before the clamp of line 170.\<close>

definition topBeforeClamp :: "Step \<Rightarrow> Element \<Rightarrow> Window \<Rightarrow> real" where
  "topBeforeClamp step target win =
     (let top0 = rectTop target + scrollTop win;
          top1 = (case verticalPosition step of
                    Some Top \<Rightarrow> top0 - offsetHeight target
                  | Some Bottom \<Rightarrow> top0 + offsetHeight target
                  | Some Middle \<Rightarrow> top0 + offsetHeight target / 2
                  | None \<Rightarrow> top0 + offsetHeight target / 2)
      in top1 + (case verticalOffset step of Some d \<Rightarrow> d | None \<Rightarrow> 0))"

text \<open>The value of \<^verbatim>\<open>left\<close> after line 166, before the clamp of line 169.\<close>

definition leftBeforeClamp :: "Step \<Rightarrow> Element \<Rightarrow> Window \<Rightarrow> real" where
  "leftBeforeClamp step target win =
     (let left0 = rectLeft target + scrollLeft win;
          left1 = (case horizontalPosition step of
                     Some Left \<Rightarrow> left0 - offsetWidth target
                   | Some Right \<Rightarrow> left0 + offsetWidth target
                   | Some Center \<Rightarrow> left0 + offsetWidth target / 2
                   | None \<Rightarrow> left0 + offsetWidth target / 2);
          left2 = left1 + (case horizontalOffset step of Some d \<Rightarrow> d | None \<Rightarrow> 0);
          centerOffset = tooltipWidth / 2
      in if horizontalPosition step = Some Center then left2 - centerOffset else left2)"

text \<open>Lines 169-170: the clamped coordinates written into the style.\<close>

definition tooltipLeft :: "Step \<Rightarrow> Element \<Rightarrow> Window \<Rightarrow> real" where
  "tooltipLeft step target win =
     max 0 (min (leftBeforeClamp step target win) (innerWidth win - tooltipWidth))"

definition tooltipTop :: "Step \<Rightarrow> Element \<Rightarrow> Window \<Rightarrow> real" where
  "tooltipTop step target win =
     max 0 (min (topBeforeClamp step target win) (innerHeight win))"

text \<open>
  \<^verbatim>\<open>updateTooltipPosition\<close> (lines 117-178). It returns early when no step is active or
  the target is not in the document, and throws when \<^verbatim>\<open>steps[activeStep]\<close> is
  \<^verbatim>\<open>undefined\<close> (line 120 reads \<^verbatim>\<open>step.elementId\<close> unguarded).
\<close>

definition updateTooltipPosition ::
    "Step list \<Rightarrow> Document \<Rightarrow> Window \<Rightarrow> ProviderState \<Rightarrow> Error + ProviderState" where
  "updateTooltipPosition steps doc win s =
     (if activeStep s < 0 then Inr s
      else case index steps (activeStep s) of
        None \<Rightarrow> Inl TypeError
      | Some step \<Rightarrow>
          (case getElementById doc (elementId step) of
             None \<Rightarrow> Inr s
           | Some target \<Rightarrow>
               Inr (s\<lparr>curTooltipStyle := (curTooltipStyle s)
                      (''position'' \<mapsto> CssStr ''absolute'',
                       ''top'' \<mapsto> CssPx (tooltipTop step target win),
                       ''left'' \<mapsto> CssPx (tooltipLeft step target win))\<rparr>)))"

section \<open>Navigation\<close>

text \<open>\<^verbatim>\<open>handleClose\<close> (lines 180-183).\<close>

definition handleClose :: "ProviderState \<Rightarrow> ProviderState" where
  "handleClose s = s\<lparr>activeStep := - 1, resizeListener := False\<rparr>"

text \<open>
  \<^verbatim>\<open>handleNext\<close> (lines 185-198). The read \<^verbatim>\<open>steps[prevStep+1]?.tooltipStyle\<close> is guarded
  by optional chaining, so the handler cannot throw.
\<close>

definition handleNext :: "Step list \<Rightarrow> ProviderState \<Rightarrow> ProviderState" where
  "handleNext steps s =
     (if activeStep s = int (length steps) - 1 then handleClose s
      else s\<lparr>curTooltipStyle :=
                defaultTooltipStyle ++ spread (Option.bind (index steps (activeStep s + 1)) tooltipStyle),
              activeStep := activeStep s + 1\<rparr>)"

text \<open>
  The effect of lines 200-206, run after the first render and after every render in
  which \<^verbatim>\<open>activeStep\<close> or \<^verbatim>\<open>steps\<close> changed: recompute the placement, then register
  the \<^verbatim>\<open>resize\<close> listener.
\<close>

definition runEffect ::
    "Step list \<Rightarrow> Document \<Rightarrow> Window \<Rightarrow> ProviderState \<Rightarrow> Error + ProviderState" where
  "runEffect steps doc win s =
     (case updateTooltipPosition steps doc win s of
        Inl e \<Rightarrow> Inl e
      | Inr s' \<Rightarrow> Inr (s'\<lparr>resizeListener := True\<rparr>))"

text \<open>A \<^verbatim>\<open>resize\<close> event: the listener, when registered, recomputes the placement.\<close>

definition onResize ::
    "Step list \<Rightarrow> Document \<Rightarrow> Window \<Rightarrow> ProviderState \<Rightarrow> Error + ProviderState" where
  "onResize steps doc win s =
     (if resizeListener s then updateTooltipPosition steps doc win s else Inr s)"

section \<open>Rendering\<close>

text \<open>The two callbacks the provider hands to its tooltip.\<close>

datatype Handler = HandleClose | HandleNext

text \<open>The props of \<^verbatim>\<open>Tooltip\<close> (lines 232-242); \<^verbatim>\<open>onNext\<close> may be \<^verbatim>\<open>null\<close>.\<close>

record TooltipProps =
  text_prop :: string
  style_prop :: CSSProperties
  onClose :: Handler
  onNext :: "Handler option"

text \<open>A rendered button: its label and its \<^verbatim>\<open>onClick\<close> handler.\<close>

datatype Button = Button string Handler

text \<open>What \<^verbatim>\<open>Tooltip\<close> renders (lines 243-267); button styles are left out.\<close>

record TooltipElement =
  divStyle :: CSSProperties
  pText :: string
  buttons :: "Button list"

definition Tooltip :: "TooltipProps \<Rightarrow> TooltipElement" where
  "Tooltip props =
     \<lparr>divStyle = style_prop props,
      pText = text_prop props,
      buttons = Button ''Close'' (onClose props) #
                (case onNext props of None \<Rightarrow> [] | Some h \<Rightarrow> [Button ''Next'' h])\<rparr>"

text \<open>
  What \<^verbatim>\<open>TutorialProvider\<close> returns (lines 208-229): the bare children, or the context
  provider with the context value, the tooltip's props, the dimming layer's style and
  the children.
\<close>

datatype 'c View =
    Fragment 'c
  | Provider int "Step list" TooltipProps CSSProperties 'c

text \<open>
  Lines 208-229. \<^verbatim>\<open>curTooltipStyle\<close> is always an object, hence truthy, so the tooltip
  is always part of the active view. Line 215 reads \<^verbatim>\<open>steps[activeStep].text\<close> unguarded.
\<close>

definition render ::
    "Step list \<Rightarrow> CSSProperties option \<Rightarrow> 'c \<Rightarrow> ProviderState \<Rightarrow> Error + 'c View" where
  "render steps dimStyle children s =
     (if activeStep s < 0 then Inr (Fragment children)
      else case index steps (activeStep s) of
        None \<Rightarrow> Inl TypeError
      | Some step \<Rightarrow>
          Inr (Provider (activeStep s) steps
                 \<lparr>text_prop = text' step,
                  style_prop = curTooltipStyle s,
                  onClose = HandleClose,
                  onNext = (if activeStep s \<noteq> int (length steps) - 1
                            then Some HandleNext else None)\<rparr>
                 (case dimStyle of
                    Some d \<Rightarrow> d ++ fullScreenFixed
                  | None \<Rightarrow> defaultBodyDimStyle)
                 children))"

section \<open>The range of the active index\<close>

text \<open>
  The range the active index is meant to stay in: \<open>-1\<close> (inactive) or the index
  of a step of the sequence.
\<close>

definition activeStepInRange :: "Step list \<Rightarrow> ProviderState \<Rightarrow> bool" where
  "activeStepInRange steps s \<longleftrightarrow> - 1 \<le> activeStep s \<and> activeStep s < int (length steps)"

section \<open>The example of the README\<close>

text \<open>The three steps of the README's example (\<^verbatim>\<open>TutorialSteps\<close>).\<close>

definition TutorialSteps :: "Step list" where
  "TutorialSteps =
     [\<lparr>elementId = ''a1'',
       text' = ''Lorem ipsum dolor sit amet, consectetur adipisicing elit.'',
       verticalPosition = Some Bottom, horizontalPosition = Some Left,
       verticalOffset = None, horizontalOffset = None,
       tooltipStyle = Some (map_of [(''color'', CssStr ''yellow'')])\<rparr>,
      \<lparr>elementId = ''a2'',
       text' = ''Lorem ipsum dolor sit amet, consectetur adipisicing elit.'',
       verticalPosition = Some Middle, horizontalPosition = Some Center,
       verticalOffset = None, horizontalOffset = None,
       tooltipStyle = None\<rparr>,
      \<lparr>elementId = ''a3'',
       text' = ''Lorem ipsum dolor sit amet, consectetur adipisicing elit.'',
       verticalPosition = Some Top, horizontalPosition = Some Right,
       verticalOffset = None, horizontalOffset = None,
       tooltipStyle = None\<rparr>]"

section \<open>Navigation: advancing\<close>

text \<open>
  Claim C1. For every step sequence of length \<open>L\<close> and every \<open>i\<close> with \<open>0 \<le> i < L\<close>,
  \<^verbatim>\<open>handleNext\<close> in the state with \<open>activeStep = i\<close> leaves \<open>activeStep = i + 1\<close> when
  \<open>i < L - 1\<close>, and \<open>activeStep = -1\<close> (inactive) when \<open>i = L - 1\<close>.
\<close>

theorem handleNext_from_active:
  assumes "0 \<le> i" and "i < int (length steps)" and "activeStep s = i"
  shows "activeStep (handleNext steps s) = (if i < int (length steps) - 1 then i + 1 else - 1)"
  using assms by (simp add: handleNext_def handleClose_def)

theorem handleNext_from_active_witness:
  "activeStep (handleNext TutorialSteps (initialState TutorialSteps (Some True))) = 1
   \<and> activeStep (handleNext TutorialSteps
        (handleNext TutorialSteps (handleNext TutorialSteps (initialState TutorialSteps (Some True)))))
      = - 1"
proof -
  let ?s0 = "initialState TutorialSteps (Some True)"
  let ?s1 = "handleNext TutorialSteps ?s0"
  let ?s2 = "handleNext TutorialSteps ?s1"
  have len: "int (length TutorialSteps) = 3"
    by (simp add: TutorialSteps_def)
  have a0: "activeStep ?s0 = 0"
    by (simp add: initialState_def Let_def)
  have a1: "activeStep ?s1 = 1"
    using handleNext_from_active [of 0 TutorialSteps ?s0] a0 len by simp
  have a2: "activeStep ?s2 = 2"
    using handleNext_from_active [of 1 TutorialSteps ?s1] a1 len by simp
  have a3: "activeStep (handleNext TutorialSteps ?s2) = - 1"
    using handleNext_from_active [of 2 TutorialSteps ?s2] a2 len by simp
  from a1 a3 show ?thesis by simp
qed

section \<open>Navigation while inactive\<close>

text \<open>
  Claim C2, as stated, fails: with the README's steps and \<^verbatim>\<open>showTooltip\<close> omitted the
  provider starts inactive, and \<^verbatim>\<open>handleNext\<close> there moves it to step 0 (line 186
  compares \<open>-1\<close> with \<open>length - 1 = 2\<close>, and the updater of line 191 adds one).
\<close>

theorem handleNext_inactive_counterexample:
  "activeStep (initialState TutorialSteps None) = - 1
   \<and> activeStep (handleNext TutorialSteps (initialState TutorialSteps None)) = 0"
  by (simp add: initialState_def handleNext_def TutorialSteps_def Let_def)

text \<open>
  Claim C2, amended. In an inactive state (\<open>activeStep = -1\<close>) \<^verbatim>\<open>handleClose\<close> leaves
  \<open>activeStep = -1\<close> and the tooltip style as they are (all it does is drop the resize
  listener); \<^verbatim>\<open>handleNext\<close> does the same when the step sequence is empty; both are
  total, so neither throws; and the provider renders only its children there, so
  neither control is on screen while inactive.
\<close>

theorem inactive_close_and_advance:
  assumes "activeStep s = - 1"
  shows "activeStep (handleClose s) = - 1
         \<and> curTooltipStyle (handleClose s) = curTooltipStyle s
         \<and> handleClose s = s\<lparr>resizeListener := False\<rparr>
         \<and> handleNext [] s = handleClose s
         \<and> render steps dimStyle children s = Inr (Fragment children)"
  using assms by (simp add: handleClose_def handleNext_def render_def)

theorem inactive_close_and_advance_witness:
  "activeStep (handleClose (initialState TutorialSteps None)) = - 1
   \<and> curTooltipStyle (handleClose (initialState TutorialSteps None))
       = curTooltipStyle (initialState TutorialSteps None)
   \<and> handleNext [] (initialState TutorialSteps None) = handleClose (initialState TutorialSteps None)
   \<and> render TutorialSteps None () (initialState TutorialSteps None) = Inr (Fragment ())"
proof -
  have inactive: "activeStep (initialState TutorialSteps None) = - 1"
    by (simp add: initialState_def Let_def)
  show ?thesis
    using inactive_close_and_advance [OF inactive, of TutorialSteps None "()"] by blast
qed

section \<open>The active index stays in range\<close>

lemma activeStepInRange_handleClose: "activeStepInRange steps (handleClose s)"
  by (simp add: activeStepInRange_def handleClose_def)

lemma activeStepInRange_handleNext:
  "activeStepInRange steps s \<Longrightarrow> activeStepInRange steps (handleNext steps s)"
  by (auto simp add: activeStepInRange_def handleNext_def handleClose_def)

lemma activeStepInRange_initialState:
  "steps \<noteq> [] \<or> showTooltip \<noteq> Some True \<Longrightarrow>
     activeStepInRange steps (initialState steps showTooltip)"
  by (auto simp add: activeStepInRange_def initialState_def Let_def)

text \<open>
  Claim C3. The range \<open>-1 \<le> activeStep < length\<close> is kept by \<^verbatim>\<open>handleNext\<close> and
  \<^verbatim>\<open>handleClose\<close> (the lemmas above), but line 110 does not establish it for an empty
  \<^verbatim>\<open>steps\<close> array with \<^verbatim>\<open>showTooltip = true\<close>: the provider starts at index 0 of a
  sequence of length 0.
\<close>

theorem initialState_empty_autoshow_out_of_range:
  "activeStep (initialState [] (Some True)) = 0
   \<and> \<not> activeStepInRange [] (initialState [] (Some True))"
  by (simp add: initialState_def activeStepInRange_def Let_def)

section \<open>Placement: the clamp\<close>

text \<open>
  Claim C4, as stated, fails for a viewport narrower than the assumed width: line 169
  applies the lower bound last, so with \<^verbatim>\<open>innerWidth = 200\<close> the result is
  \<open>left = 0\<close>, above \<open>innerWidth - 300 = -100\<close>.
\<close>

theorem tooltipLeft_narrow_viewport_counterexample:
  "tooltipLeft
     \<lparr>elementId = ''a1'', text' = ''t'', verticalPosition = None, horizontalPosition = None,
      verticalOffset = None, horizontalOffset = None, tooltipStyle = None\<rparr>
     \<lparr>rectTop = 100, rectLeft = 50, offsetWidth = 40, offsetHeight = 20\<rparr>
     \<lparr>innerWidth = 200, innerHeight = 600, pageXOffset = 0, pageYOffset = 0,
      documentElementScrollLeft = 0, documentElementScrollTop = 0,
      bodyScrollLeft = 0, bodyScrollTop = 0\<rparr> = 0
   \<and> innerWidth
       \<lparr>innerWidth = 200, innerHeight = 600, pageXOffset = 0, pageYOffset = 0,
        documentElementScrollLeft = 0, documentElementScrollTop = 0,
        bodyScrollLeft = 0, bodyScrollTop = 0\<rparr> - tooltipWidth = - 100
   \<and> \<not> tooltipLeft
     \<lparr>elementId = ''a1'', text' = ''t'', verticalPosition = None, horizontalPosition = None,
      verticalOffset = None, horizontalOffset = None, tooltipStyle = None\<rparr>
     \<lparr>rectTop = 100, rectLeft = 50, offsetWidth = 40, offsetHeight = 20\<rparr>
     \<lparr>innerWidth = 200, innerHeight = 600, pageXOffset = 0, pageYOffset = 0,
      documentElementScrollLeft = 0, documentElementScrollTop = 0,
      bodyScrollLeft = 0, bodyScrollTop = 0\<rparr>
     \<le> innerWidth
       \<lparr>innerWidth = 200, innerHeight = 600, pageXOffset = 0, pageYOffset = 0,
        documentElementScrollLeft = 0, documentElementScrollTop = 0,
        bodyScrollLeft = 0, bodyScrollTop = 0\<rparr> - tooltipWidth"
  by (simp add: tooltipLeft_def leftBeforeClamp_def scrollLeft_def orElse_def tooltipWidth_def)

text \<open>
  Claim C4, amended. For every step, target box, viewport and scroll offsets,
  \<open>0 \<le> top \<le> max 0 innerHeight\<close> and \<open>0 \<le> left \<le> max 0 (innerWidth - 300)\<close>:
  the stated upper bounds hold whenever \<open>innerHeight \<ge> 0\<close> and \<open>innerWidth \<ge> 300\<close>,
  and in a narrower viewport \<open>left\<close> is \<open>0\<close>.
\<close>

theorem tooltip_within_clamp_bounds:
  "0 \<le> tooltipTop step target win
   \<and> tooltipTop step target win \<le> max 0 (innerHeight win)
   \<and> 0 \<le> tooltipLeft step target win
   \<and> tooltipLeft step target win \<le> max 0 (innerWidth win - tooltipWidth)"
  by (simp add: tooltipTop_def tooltipLeft_def max_def min_def)

lemma tooltipLeft_wide_viewport:
  "tooltipWidth \<le> innerWidth win \<Longrightarrow> tooltipLeft step target win \<le> innerWidth win - tooltipWidth"
  by (simp add: tooltipLeft_def)

lemma tooltipLeft_narrow_viewport:
  "innerWidth win < tooltipWidth \<Longrightarrow> tooltipLeft step target win = 0"
  by (simp add: tooltipLeft_def max_def min_def)

lemma tooltipTop_upper:
  "0 \<le> innerHeight win \<Longrightarrow> tooltipTop step target win \<le> innerHeight win"
  by (simp add: tooltipTop_def)

section \<open>Placement: anchors and offsets\<close>

lemma topBeforeClamp_omitted_is_Middle:
  "topBeforeClamp (step\<lparr>verticalPosition := None\<rparr>) target win
     = topBeforeClamp (step\<lparr>verticalPosition := Some Middle\<rparr>) target win"
  by (simp add: topBeforeClamp_def)

lemma tooltipTop_omitted_is_Middle:
  "tooltipTop (step\<lparr>verticalPosition := None\<rparr>) target win
     = tooltipTop (step\<lparr>verticalPosition := Some Middle\<rparr>) target win"
  by (simp add: tooltipTop_def topBeforeClamp_omitted_is_Middle)

lemma leftBeforeClamp_omitted_vs_Center:
  "leftBeforeClamp (step\<lparr>horizontalPosition := None\<rparr>) target win
     = leftBeforeClamp (step\<lparr>horizontalPosition := Some Center\<rparr>) target win + tooltipWidth / 2"
  by (simp add: leftBeforeClamp_def Let_def)

text \<open>
  Claim C5. An omitted \<^verbatim>\<open>verticalPosition\<close> places the tooltip as \<^verbatim>\<open>Middle\<close> does (the
  lemmas above). An omitted \<^verbatim>\<open>horizontalPosition\<close> does not place it as \<^verbatim>\<open>Center\<close> does:
  the \<^verbatim>\<open>switch\<close> of line 145 treats both alike, but the centering correction of line 164
  tests \<^verbatim>\<open>=== 'center'\<close> and skips the omitted anchor. For the target box
  \<open>{top 100, left 50, width 40, height 20}\<close> in an 800 by 600 viewport the omitted anchor
  gives \<open>left = 70\<close>, the explicit \<^verbatim>\<open>Center\<close> gives \<open>left = 0\<close>.
\<close>

theorem omitted_horizontal_differs_from_Center:
  "tooltipLeft
     \<lparr>elementId = ''a2'', text' = ''t'', verticalPosition = None, horizontalPosition = None,
      verticalOffset = None, horizontalOffset = None, tooltipStyle = None\<rparr>
     \<lparr>rectTop = 100, rectLeft = 50, offsetWidth = 40, offsetHeight = 20\<rparr>
     \<lparr>innerWidth = 800, innerHeight = 600, pageXOffset = 0, pageYOffset = 0,
      documentElementScrollLeft = 0, documentElementScrollTop = 0,
      bodyScrollLeft = 0, bodyScrollTop = 0\<rparr> = 70
   \<and> tooltipLeft
     \<lparr>elementId = ''a2'', text' = ''t'', verticalPosition = None, horizontalPosition = Some Center,
      verticalOffset = None, horizontalOffset = None, tooltipStyle = None\<rparr>
     \<lparr>rectTop = 100, rectLeft = 50, offsetWidth = 40, offsetHeight = 20\<rparr>
     \<lparr>innerWidth = 800, innerHeight = 600, pageXOffset = 0, pageYOffset = 0,
      documentElementScrollLeft = 0, documentElementScrollTop = 0,
      bodyScrollLeft = 0, bodyScrollTop = 0\<rparr> = 0"
  by (simp add: tooltipLeft_def leftBeforeClamp_def scrollLeft_def orElse_def tooltipWidth_def)

text \<open>
  Claim C6. For the target box \<open>{top 100, left 50, width 40, height 20}\<close>, an 800 by 600
  viewport, no scroll and zero offsets: \<^verbatim>\<open>Top\<close> gives \<open>top = 80\<close>, \<^verbatim>\<open>Bottom\<close> 120,
  \<^verbatim>\<open>Middle\<close> 110; \<^verbatim>\<open>Left\<close> gives \<open>left = 10\<close>, \<^verbatim>\<open>Right\<close> 90, and \<^verbatim>\<open>Center\<close>
  \<open>70 - 150\<close>, clamped to 0. Each holds whatever the other axis' anchor is.
\<close>

theorem anchor_example:
  "(let target = \<lparr>rectTop = 100, rectLeft = 50, offsetWidth = 40, offsetHeight = 20\<rparr>;
        win = \<lparr>innerWidth = 800, innerHeight = 600, pageXOffset = 0, pageYOffset = 0,
               documentElementScrollLeft = 0, documentElementScrollTop = 0,
               bodyScrollLeft = 0, bodyScrollTop = 0\<rparr>;
        step = (\<lambda>v h. \<lparr>elementId = ident, text' = txt, verticalPosition = v,
                         horizontalPosition = h, verticalOffset = Some 0,
                         horizontalOffset = Some 0, tooltipStyle = sty\<rparr>)
    in tooltipTop (step (Some Top) h) target win = 80
     \<and> tooltipTop (step (Some Bottom) h) target win = 120
     \<and> tooltipTop (step (Some Middle) h) target win = 110
     \<and> tooltipLeft (step v (Some Left)) target win = 10
     \<and> tooltipLeft (step v (Some Right)) target win = 90
     \<and> leftBeforeClamp (step v (Some Center)) target win = 70 - 150
     \<and> tooltipLeft (step v (Some Center)) target win = 0)"
  by (simp add: tooltipTop_def tooltipLeft_def topBeforeClamp_def leftBeforeClamp_def
      scrollTop_def scrollLeft_def orElse_def tooltipWidth_def)

lemma omitted_offsets_are_zero:
  "topBeforeClamp (step\<lparr>verticalOffset := None\<rparr>) target win
     = topBeforeClamp (step\<lparr>verticalOffset := Some 0\<rparr>) target win"
  "leftBeforeClamp (step\<lparr>horizontalOffset := None\<rparr>) target win
     = leftBeforeClamp (step\<lparr>horizontalOffset := Some 0\<rparr>) target win"
  by (simp_all add: topBeforeClamp_def leftBeforeClamp_def Let_def)

text \<open>
  Claim C7. For every step (so for every combination of anchors), target box, viewport
  and scroll offsets, the value of \<^verbatim>\<open>top\<close> before the clamp with \<^verbatim>\<open>verticalOffset = d\<close> is
  the value with \<^verbatim>\<open>verticalOffset = 0\<close> plus \<open>d\<close>, and the value of \<^verbatim>\<open>left\<close> before the
  clamp with \<^verbatim>\<open>horizontalOffset = d\<close> is the value with \<^verbatim>\<open>horizontalOffset = 0\<close> plus \<open>d\<close>.
\<close>

theorem offsets_additive:
  "topBeforeClamp (step\<lparr>verticalOffset := Some d\<rparr>) target win
     = topBeforeClamp (step\<lparr>verticalOffset := Some 0\<rparr>) target win + d
   \<and> leftBeforeClamp (step\<lparr>horizontalOffset := Some d\<rparr>) target win
     = leftBeforeClamp (step\<lparr>horizontalOffset := Some 0\<rparr>) target win + d"
  by (simp add: topBeforeClamp_def leftBeforeClamp_def Let_def)

section \<open>A target that is not in the document\<close>

text \<open>
  Claim C8. When the active step exists and \<^verbatim>\<open>document.getElementById\<close> finds no element
  for its \<^verbatim>\<open>elementId\<close>, \<^verbatim>\<open>updateTooltipPosition\<close> returns normally and leaves the whole
  state as it was: the tooltip style with its \<^verbatim>\<open>top\<close> and \<^verbatim>\<open>left\<close>, and \<^verbatim>\<open>activeStep\<close>.
  The same holds for a \<^verbatim>\<open>resize\<close> event, which only calls it.
\<close>

theorem missing_target_keeps_state:
  assumes "index steps (activeStep s) = Some step"
    and "getElementById doc (elementId step) = None"
  shows "updateTooltipPosition steps doc win s = Inr s \<and> onResize steps doc win s = Inr s"
proof -
  from assms(1) have "\<not> activeStep s < 0"
    by (simp add: index_def split: if_splits)
  with assms have "updateTooltipPosition steps doc win s = Inr s"
    by (simp add: updateTooltipPosition_def)
  then show ?thesis
    by (simp add: onResize_def)
qed

theorem missing_target_keeps_state_witness:
  "updateTooltipPosition TutorialSteps Map.empty
     \<lparr>innerWidth = 800, innerHeight = 600, pageXOffset = 0, pageYOffset = 0,
      documentElementScrollLeft = 0, documentElementScrollTop = 0,
      bodyScrollLeft = 0, bodyScrollTop = 0\<rparr>
     (initialState TutorialSteps (Some True))
   = Inr (initialState TutorialSteps (Some True))"
proof -
  have a: "index TutorialSteps (activeStep (initialState TutorialSteps (Some True)))
             = Some (TutorialSteps ! 0)"
    by (simp add: index_def initialState_def TutorialSteps_def Let_def)
  have b: "getElementById Map.empty (elementId (TutorialSteps ! 0)) = None"
    by (simp add: getElementById_def)
  from missing_target_keeps_state [OF a b] show ?thesis by simp
qed

section \<open>Reads of the steps array\<close>

lemma index_in_range:
  "0 \<le> i \<Longrightarrow> i < int (length xs) \<Longrightarrow> index xs i = Some (xs ! nat i)"
  by (simp add: index_def)

lemma active_in_range_no_TypeError:
  assumes "0 \<le> activeStep s" and "activeStep s < int (length steps)"
  shows "render steps dimStyle children s \<noteq> Inl TypeError"
    and "updateTooltipPosition steps doc win s \<noteq> Inl TypeError"
  using assms
  by (simp_all add: render_def updateTooltipPosition_def index_in_range split: option.splits)

text \<open>
  Claim C9. With an empty \<^verbatim>\<open>steps\<close> array and \<^verbatim>\<open>showTooltip = true\<close> the provider starts
  with \<open>activeStep = 0\<close>, \<^verbatim>\<open>steps[0]\<close> is \<^verbatim>\<open>undefined\<close>, and both unguarded reads throw:
  \<^verbatim>\<open>steps[activeStep].text\<close> in the first render (line 215) and \<^verbatim>\<open>step.elementId\<close> in
  \<^verbatim>\<open>updateTooltipPosition\<close> (line 120).
\<close>

theorem empty_steps_autoshow_TypeError:
  "index [] (activeStep (initialState [] (Some True))) = (None :: Step option)
   \<and> render [] dimStyle children (initialState [] (Some True)) = Inl TypeError
   \<and> updateTooltipPosition [] doc win (initialState [] (Some True)) = Inl TypeError"
  by (simp add: initialState_def index_def render_def updateTooltipPosition_def Let_def)

section \<open>The controls of the tooltip\<close>

text \<open>
  Claim C10. \<^verbatim>\<open>Tooltip\<close> renders a Next button exactly when its \<^verbatim>\<open>onNext\<close> prop is not
  \<^verbatim>\<open>null\<close>. On an active step that exists, the provider renders the tooltip with
  \<^verbatim>\<open>onClose = handleClose\<close> and with \<^verbatim>\<open>onNext = handleNext\<close> exactly when
  \<open>activeStep \<noteq> length - 1\<close>; on the last step \<^verbatim>\<open>onNext\<close> is \<^verbatim>\<open>null\<close> and the tooltip
  shows the Close button only.
\<close>

theorem next_control_only_before_last_step:
  "(\<forall>p. (\<exists>h. Button ''Next'' h \<in> set (buttons (Tooltip p))) = (onNext p \<noteq> None))
   \<and> (0 \<le> activeStep s \<and> activeStep s < int (length steps) \<longrightarrow>
        (\<exists>props dim.
           render steps dimStyle children s = Inr (Provider (activeStep s) steps props dim children)
           \<and> onClose props = HandleClose
           \<and> (onNext props = Some HandleNext) = (activeStep s \<noteq> int (length steps) - 1)
           \<and> (onNext props = None) = (activeStep s = int (length steps) - 1)
           \<and> buttons (Tooltip props) =
               (if activeStep s = int (length steps) - 1
                then [Button ''Close'' HandleClose]
                else [Button ''Close'' HandleClose, Button ''Next'' HandleNext])))"
proof (intro conjI allI impI)
  fix p
  show "(\<exists>h. Button ''Next'' h \<in> set (buttons (Tooltip p))) = (onNext p \<noteq> None)"
    by (cases "onNext p") (simp_all add: Tooltip_def)
next
  assume "0 \<le> activeStep s \<and> activeStep s < int (length steps)"
  then have "index steps (activeStep s) = Some (steps ! nat (activeStep s))"
    and "\<not> activeStep s < 0"
    by (simp_all add: index_in_range)
  then show "\<exists>props dim.
      render steps dimStyle children s = Inr (Provider (activeStep s) steps props dim children)
      \<and> onClose props = HandleClose
      \<and> (onNext props = Some HandleNext) = (activeStep s \<noteq> int (length steps) - 1)
      \<and> (onNext props = None) = (activeStep s = int (length steps) - 1)
      \<and> buttons (Tooltip props) =
          (if activeStep s = int (length steps) - 1
           then [Button ''Close'' HandleClose]
           else [Button ''Close'' HandleClose, Button ''Next'' HandleNext])"
    by (simp add: render_def Tooltip_def)
qed

theorem next_control_only_before_last_step_witness:
  "(\<exists>props dim.
      render TutorialSteps None () (initialState TutorialSteps (Some True))
        = Inr (Provider 0 TutorialSteps props dim ())
      \<and> onNext props = Some HandleNext
      \<and> buttons (Tooltip props) = [Button ''Close'' HandleClose, Button ''Next'' HandleNext])
   \<and> (\<exists>props dim.
      render TutorialSteps None () ((initialState TutorialSteps (Some True))\<lparr>activeStep := 2\<rparr>)
        = Inr (Provider 2 TutorialSteps props dim ())
      \<and> onNext props = None
      \<and> buttons (Tooltip props) = [Button ''Close'' HandleClose])"
proof -
  let ?s0 = "initialState TutorialSteps (Some True)"
  let ?s2 = "?s0\<lparr>activeStep := 2\<rparr>"
  have len: "int (length TutorialSteps) = 3"
    by (simp add: TutorialSteps_def)
  have a0: "activeStep ?s0 = 0"
    by (simp add: initialState_def Let_def)
  have a2: "activeStep ?s2 = 2"
    by simp
  have "0 \<le> activeStep ?s0 \<and> activeStep ?s0 < int (length TutorialSteps)"
    by (simp add: a0 len)
  with next_control_only_before_last_step [of ?s0 TutorialSteps None "()"]
  obtain props dim where
    "render TutorialSteps None () ?s0 = Inr (Provider (activeStep ?s0) TutorialSteps props dim ())"
    and "(onNext props = Some HandleNext) = (activeStep ?s0 \<noteq> int (length TutorialSteps) - 1)"
    and "buttons (Tooltip props) =
           (if activeStep ?s0 = int (length TutorialSteps) - 1
            then [Button ''Close'' HandleClose]
            else [Button ''Close'' HandleClose, Button ''Next'' HandleNext])"
    by blast
  then have "render TutorialSteps None () ?s0 = Inr (Provider 0 TutorialSteps props dim ())
      \<and> onNext props = Some HandleNext
      \<and> buttons (Tooltip props) = [Button ''Close'' HandleClose, Button ''Next'' HandleNext]"
    by (simp add: a0 len)
  then have first: "\<exists>props dim.
      render TutorialSteps None () ?s0 = Inr (Provider 0 TutorialSteps props dim ())
      \<and> onNext props = Some HandleNext
      \<and> buttons (Tooltip props) = [Button ''Close'' HandleClose, Button ''Next'' HandleNext]"
    by blast
  have "0 \<le> activeStep ?s2 \<and> activeStep ?s2 < int (length TutorialSteps)"
    by (simp add: len)
  with next_control_only_before_last_step [of ?s2 TutorialSteps None "()"]
  obtain props' dim' where
    "render TutorialSteps None () ?s2 = Inr (Provider (activeStep ?s2) TutorialSteps props' dim' ())"
    and "(onNext props' = None) = (activeStep ?s2 = int (length TutorialSteps) - 1)"
    and "buttons (Tooltip props') =
           (if activeStep ?s2 = int (length TutorialSteps) - 1
            then [Button ''Close'' HandleClose]
            else [Button ''Close'' HandleClose, Button ''Next'' HandleNext])"
    by blast
  then have "render TutorialSteps None () ?s2 = Inr (Provider 2 TutorialSteps props' dim' ())
      \<and> onNext props' = None
      \<and> buttons (Tooltip props') = [Button ''Close'' HandleClose]"
    by (simp add: len)
  then have last: "\<exists>props dim.
      render TutorialSteps None () ?s2 = Inr (Provider 2 TutorialSteps props dim ())
      \<and> onNext props = None
      \<and> buttons (Tooltip props) = [Button ''Close'' HandleClose]"
    by blast
  from first last show ?thesis by (rule conjI)
qed

end
